theory Spec2Isabelle
  imports Complex_Main "HOL-Library.Signed_Division"
begin

section \<open>Data model\<close>

text \<open>
  The program is a 2D particle sandbox: \<^verbatim>\<open>main.cpp\<close> holds the input step
  (\<^verbatim>\<open>processInput\<close>), the seeding of the scene and the fixed-timestep loop of
  \<^verbatim>\<open>main\<close>; \<^verbatim>\<open>Entities/Entity.h\<close> declares the entity classes.

  Numbers. The C++ \<^verbatim>\<open>float\<close> and \<^verbatim>\<open>double\<close> values are modelled as
  \<^typ>\<open>real\<close>: the arithmetic is exact, and rounding, infinities and NaN are not
  modelled. The theorems below are about which fields are written, with which
  expression and in which order; none of them is about rounding.
\<close>

record Vector2 =
  X :: real
  Y :: real

text \<open>
  \<^verbatim>\<open>EntityType\<close> is declared in \<^verbatim>\<open>Common.h\<close>, which is not among the sources;
  \<^verbatim>\<open>main.cpp\<close> uses the enumerator \<^verbatim>\<open>BOX\<close>, and the other shape of the
  program is the circle.
\<close>

datatype EntityType = CIRCLE | BOX

text \<open>
  The class \<^verbatim>\<open>Entity\<close> with the members of its two subclasses
  (\<^verbatim>\<open>radius\<close> of \<^verbatim>\<open>EntityCircle\<close>; \<^verbatim>\<open>width\<close> and \<^verbatim>\<open>length\<close> of
  \<^verbatim>\<open>EntityBox\<close>). The rendering members (\<^verbatim>\<open>vao\<close>, \<^verbatim>\<open>numTriangles\<close>)
  are left out. \<^verbatim>\<open>main.cpp\<close> reads and writes the kinematic flag through
  \<^verbatim>\<open>isKinematic()\<close> and \<^verbatim>\<open>setKinematic(bool)\<close>; the flag is the field
  \<open>kinematic\<close> here.
\<close>

record Entity =
  position :: Vector2
  velocity :: Vector2
  force :: Vector2
  rotation :: real
  mass :: real
  color :: "real list"
  type :: EntityType
  kinematic :: bool
  bounciness :: real
  friction :: real
  deactivation :: real
  radius :: real
  width :: real
  length_box :: real

text \<open>
  Modelled from the spec: the accessor \<^verbatim>\<open>isKinematic()\<close>, whose body is not among the
  sources; it reads the kinematic flag.
\<close>

definition isKinematic :: "Entity \<Rightarrow> bool" where
  "isKinematic e = kinematic e"

text \<open>
  Modelled from the spec: the accessor \<^verbatim>\<open>setKinematic(bool)\<close>, whose body is not among
  the sources; it writes the kinematic flag and nothing else.
\<close>

definition setKinematic :: "bool \<Rightarrow> Entity \<Rightarrow> Entity" where
  "setKinematic b e = e\<lparr>kinematic := b\<rparr>"

text \<open>
  Modelled from the spec: the constructor \<^verbatim>\<open>EntityCircle(Vector2, Mesh*)\<close>, whose body
  (\<^verbatim>\<open>Entity.cpp\<close>) is not among the sources. The spec fixes the position (the
  argument), the shape kind (set at construction) and that a new entity is not kinematic
  until \<^verbatim>\<open>setKinematic(true)\<close> is called on it; the header agrees
  (\<^verbatim>\<open>usePhysics = true\<close>). Every other member (mass, colour, radius, initial
  velocity, force and rotation, material coefficients) is taken from the argument
  \<open>attrs\<close>, which stands for whatever the constructor chooses.
\<close>

definition EntityCircle :: "Entity \<Rightarrow> Vector2 \<Rightarrow> Entity" where
  "EntityCircle attrs pos = attrs\<lparr>position := pos, type := CIRCLE, kinematic := False\<rparr>"

text \<open>
  Modelled from the spec: the constructor \<^verbatim>\<open>EntityBox(Vector2, Mesh*)\<close>, whose body is
  not among the sources; as for the circle, with the other shape kind.
\<close>

definition EntityBox :: "Entity \<Rightarrow> Vector2 \<Rightarrow> Entity" where
  "EntityBox attrs pos = attrs\<lparr>position := pos, type := BOX, kinematic := False\<rparr>"

text \<open>
  The macros of \<^verbatim>\<open>Common.h\<close> that \<^verbatim>\<open>main.cpp\<close> uses. Their values are not among
  the sources, so they are parameters.
\<close>

record Common =
  SCREEN_WIDTH :: int
  SCREEN_HEIGHT :: int
  GRAVITY :: real
  TICKS_PER_SECOND :: real

text \<open>
  What the window and the \<^verbatim>\<open>Input\<close> object report during one call of
  \<^verbatim>\<open>processInput\<close>: the cursor position of \<^verbatim>\<open>glfwGetCursorPos\<close>, the two
  \<^verbatim>\<open>getMouseButtonPressed\<close> answers and the keys that \<^verbatim>\<open>glfwGetKey\<close> reports as
  \<^verbatim>\<open>GLFW_PRESS\<close>.
\<close>

record Input =
  cursor_xpos :: real
  cursor_ypos :: real
  MOUSE_BUTTON_1 :: bool
  MOUSE_BUTTON_2 :: bool
  KEY_ESCAPE :: bool
  KEY_W :: bool
  KEY_S :: bool
  KEY_A :: bool
  KEY_D :: bool
  KEY_RIGHT :: bool
  KEY_LEFT :: bool

text \<open>
  The globals that the simulation changes: the vector \<^verbatim>\<open>entities\<close> and the
  window's close flag. Every element of \<^verbatim>\<open>std::vector<Entity*>\<close> points to an object
  allocated by its own \<^verbatim>\<open>new\<close> and owned by the vector alone, so the vector is the
  list of the objects, in insertion order.
\<close>

record State =
  entities :: "Entity list"
  shouldClose :: bool

section \<open>The input step: processInput\<close>

text \<open>
  The loop shape \<^verbatim>\<open>for (int i = 0; i < entities.size(); i++)\<close> whose body changes
  the object \<^verbatim>\<open>entities[i]\<close> only.
\<close>

function forEachFrom :: "(Entity \<Rightarrow> Entity) \<Rightarrow> nat \<Rightarrow> Entity list \<Rightarrow> Entity list" where
  "forEachFrom f i es =
     (if i < length es then forEachFrom f (Suc i) (es[i := f (es ! i)]) else es)"
  by pat_completeness auto
termination
  by (relation "measure (\<lambda>(f, i, es). length es - i)") auto

declare forEachFrom.simps [simp del]

text \<open>Lines 157 to 164: at most one circle is pushed, the secondary one kinematic.\<close>

definition spawn :: "Common \<Rightarrow> Entity \<Rightarrow> Input \<Rightarrow> Entity list" where
  "spawn C attrs inp =
     (let xpos = cursor_xpos inp;
          ypos = real_of_int (SCREEN_HEIGHT C) - cursor_ypos inp
      in if MOUSE_BUTTON_1 inp then [EntityCircle attrs \<lparr>X = xpos, Y = ypos\<rparr>]
         else if MOUSE_BUTTON_2 inp then
           [setKinematic True (EntityCircle attrs \<lparr>X = xpos, Y = ypos\<rparr>)]
         else [])"

text \<open>Lines 171 to 192: the movement vector and the rotation read from the keys.\<close>

definition movement :: "Input \<Rightarrow> Vector2" where
  "movement inp =
     (let m = \<lparr>X = 0, Y = 0\<rparr>;
          m = (if KEY_W inp then m\<lparr>Y := 5\<rparr> else if KEY_S inp then m\<lparr>Y := - 5\<rparr> else m);
          m = (if KEY_A inp then m\<lparr>X := - 5\<rparr> else if KEY_D inp then m\<lparr>X := 5\<rparr> else m)
      in m)"

definition rotation_input :: "Input \<Rightarrow> real" where
  "rotation_input inp = (if KEY_RIGHT inp then 1 else if KEY_LEFT inp then - 1 else 0)"

text \<open>Lines 195 to 201: the body of the loop over the entities.\<close>

definition applyInput :: "Common \<Rightarrow> Vector2 \<Rightarrow> real \<Rightarrow> Entity \<Rightarrow> Entity" where
  "applyInput C m rot e =
     (let e = (if \<not> isKinematic e then
                 let e = e\<lparr>force := (force e)\<lparr>Y := Y (force e) + Y m * (- GRAVITY C) * mass e\<rparr>\<rparr>
                 in e\<lparr>force := (force e)\<lparr>X := X (force e) + X m * mass e\<rparr>\<rparr>
               else e)
      in if type e = BOX then e\<lparr>rotation := rotation e + rot\<rparr> else e)"

text \<open>
  \<^verbatim>\<open>processInput\<close>, lines 151 to 203. \<open>attrs\<close> is what the constructor chooses for
  the circle that a click of this tick creates. \<^verbatim>\<open>SCREEN_HEIGHT\<close> is an operand of
  \<^verbatim>\<open>%\<close> in \<^verbatim>\<open>main\<close>, hence an integer.
\<close>

definition processInput :: "Common \<Rightarrow> Entity \<Rightarrow> Input \<Rightarrow> State \<Rightarrow> State" where
  "processInput C attrs inp st =
     (let st = st\<lparr>entities := entities st @ spawn C attrs inp\<rparr>;
          st = (if KEY_ESCAPE inp then st\<lparr>shouldClose := True\<rparr> else st)
      in st\<lparr>entities :=
            forEachFrom (applyInput C (movement inp) (rotation_input inp)) 0 (entities st)\<rparr>)"

section \<open>The seeded scene and the loop of main\<close>

text \<open>
  One construction at start-up: what the constructor chooses (\<open>draw_attrs\<close>) and the
  values that the two calls of \<^verbatim>\<open>rand()\<close> in the arguments of \<^verbatim>\<open>Vector2\<close> return,
  \<open>rand_x\<close> for the first argument and \<open>rand_y\<close> for the second.
\<close>

record Draw =
  draw_attrs :: Entity
  rand_x :: int
  rand_y :: int

text \<open>
  Lines 296 to 300. \<^verbatim>\<open>%\<close> on \<^verbatim>\<open>int\<close> truncates towards zero, which is \<open>smod\<close>;
  a zero \<^verbatim>\<open>SCREEN_WIDTH\<close> or \<^verbatim>\<open>SCREEN_HEIGHT\<close> is undefined behaviour in C++ and
  is not modelled. \<^verbatim>\<open>rand() % SCREEN_WIDTH * 0.8f\<close> is the product of the remainder
  and \<^verbatim>\<open>0.8f\<close>; the other three coordinates are \<^verbatim>\<open>int\<close> values converted by the
  call.
\<close>

function seedCircles :: "Common \<Rightarrow> (nat \<Rightarrow> Draw) \<Rightarrow> nat \<Rightarrow> Entity list \<Rightarrow> Entity list" where
  "seedCircles C draw i es =
     (if i < 2 then
        seedCircles C draw (Suc i)
          (es @ [EntityCircle (draw_attrs (draw i))
                   \<lparr>X = real_of_int (rand_x (draw i) smod SCREEN_WIDTH C - 20),
                    Y = real_of_int (rand_y (draw i) smod SCREEN_HEIGHT C - 20)\<rparr>])
      else es)"
  by pat_completeness auto
termination
  by (relation "measure (\<lambda>(C, draw, i, es). 2 - i)") auto

declare seedCircles.simps [simp del]

definition seedScene :: "Common \<Rightarrow> Draw \<Rightarrow> (nat \<Rightarrow> Draw) \<Rightarrow> Entity list" where
  "seedScene C box draw =
     seedCircles C draw 0
       ([] @ [EntityBox (draw_attrs box)
                \<lparr>X = real_of_int (rand_x box smod SCREEN_WIDTH C) * 0.8,
                 Y = real_of_int (rand_y box smod SCREEN_HEIGHT C - 200)\<rparr>])"

text \<open>
  The second loop of a tick, lines 322 to 324. \<^verbatim>\<open>CheckCollisions\<close> receives a copy of
  the vector, so it can change the objects but not the size of \<^verbatim>\<open>entities\<close>: the bound
  \<open>n\<close> is the size at the start of the loop. The method is a parameter \<open>K\<close>:
  \<open>K i es\<close> is the content of all objects after \<^verbatim>\<open>entities[i]->CheckCollisions(entities)\<close>
  has run on the content \<open>es\<close>.
\<close>

function checkLoop :: "(nat \<Rightarrow> Entity list \<Rightarrow> Entity list) \<Rightarrow> nat \<Rightarrow> nat \<Rightarrow> Entity list \<Rightarrow> Entity list" where
  "checkLoop K n i es = (if i < n then checkLoop K n (Suc i) (K i es) else es)"
  by pat_completeness auto
termination
  by (relation "measure (\<lambda>(K, n, i, es). n - i)") auto

declare checkLoop.simps [simp del]

text \<open>
  One tick, lines 314 to 324. \<^verbatim>\<open>input->Update()\<close> samples the devices; the sample is
  the argument \<open>inp\<close>. \<^verbatim>\<open>Entity::Update\<close> is the parameter \<open>U\<close>, the change of one
  object, and \<^verbatim>\<open>Entity::CheckCollisions\<close> the parameter \<open>K\<close>.
\<close>

definition tick ::
  "Common \<Rightarrow> (Entity \<Rightarrow> Entity) \<Rightarrow> (nat \<Rightarrow> Entity list \<Rightarrow> Entity list) \<Rightarrow>
     Entity \<Rightarrow> Input \<Rightarrow> State \<Rightarrow> State" where
  "tick C U K attrs inp st =
     (let st = processInput C attrs inp st;
          st = st\<lparr>entities := forEachFrom U 0 (entities st)\<rparr>
      in st\<lparr>entities := checkLoop K (length (entities st)) 0 (entities st)\<rparr>)"

text \<open>
  The locals of \<^verbatim>\<open>main\<close> and the globals. \<open>ticks\<close> counts the ticks run so far; it
  selects the sample of the next tick from \<open>feed\<close>, the sequence of what the devices
  and the constructor deliver tick by tick.
\<close>

record Loop =
  lastTime :: real
  deltaTime :: real
  ticks :: nat
  world :: State

text \<open>The inner loop, lines 313 to 327.\<close>

function stepping ::
  "Common \<Rightarrow> (Entity \<Rightarrow> Entity) \<Rightarrow> (nat \<Rightarrow> Entity list \<Rightarrow> Entity list) \<Rightarrow>
     (nat \<Rightarrow> Entity \<times> Input) \<Rightarrow> Loop \<Rightarrow> Loop" where
  "stepping C U K feed L =
     (if deltaTime L \<ge> 1 then
        stepping C U K feed
          (L\<lparr>world := tick C U K (fst (feed (ticks L))) (snd (feed (ticks L))) (world L),
             ticks := Suc (ticks L),
             deltaTime := deltaTime L - 1\<rparr>)
      else L)"
  by pat_completeness auto
termination
proof (relation "measure (\<lambda>(C, U, K, feed, L). nat \<lfloor>deltaTime L\<rfloor>)")
  show "wf (measure (\<lambda>(C, U, K, feed, L). nat \<lfloor>deltaTime L\<rfloor>))"
    by simp
next
  fix C :: Common and U :: "Entity \<Rightarrow> Entity" and K :: "nat \<Rightarrow> Entity list \<Rightarrow> Entity list"
    and feed :: "nat \<Rightarrow> Entity \<times> Input" and L :: Loop
  assume "1 \<le> deltaTime L"
  then have "1 \<le> \<lfloor>deltaTime L\<rfloor>"
    by linarith
  then show "((C, U, K, feed,
      L\<lparr>world := tick C U K (fst (feed (ticks L))) (snd (feed (ticks L))) (world L),
        ticks := Suc (ticks L), deltaTime := deltaTime L - 1\<rparr>),
      (C, U, K, feed, L)) \<in> measure (\<lambda>(C, U, K, feed, L). nat \<lfloor>deltaTime L\<rfloor>)"
    by simp
qed

declare stepping.simps [simp del]

text \<open>
  One iteration of the outer loop, lines 307 to 327, for the value \<open>nowTime\<close> that
  \<^verbatim>\<open>glfwGetTime()\<close> returns. Rendering reads the entities and changes none of them.
\<close>

definition frame ::
  "Common \<Rightarrow> (Entity \<Rightarrow> Entity) \<Rightarrow> (nat \<Rightarrow> Entity list \<Rightarrow> Entity list) \<Rightarrow>
     (nat \<Rightarrow> Entity \<times> Input) \<Rightarrow> real \<Rightarrow> Loop \<Rightarrow> Loop" where
  "frame C U K feed nowTime L =
     (let L = L\<lparr>deltaTime := deltaTime L + (nowTime - lastTime L) * TICKS_PER_SECOND C\<rparr>;
          L = L\<lparr>lastTime := nowTime\<rparr>
      in stepping C U K feed L)"

text \<open>
  The outer loop, line 306, over the frames whose clock readings are given. It stops
  early once the close flag is set, which in \<^verbatim>\<open>main.cpp\<close> the ESCAPE key does; a
  window closed by other means ends the list of frames.
\<close>

fun mainLoop ::
  "Common \<Rightarrow> (Entity \<Rightarrow> Entity) \<Rightarrow> (nat \<Rightarrow> Entity list \<Rightarrow> Entity list) \<Rightarrow>
     (nat \<Rightarrow> Entity \<times> Input) \<Rightarrow> real list \<Rightarrow> Loop \<Rightarrow> Loop" where
  "mainLoop C U K feed [] L = L"
| "mainLoop C U K feed (nowTime # nows) L =
     (if shouldClose (world L) then L
      else mainLoop C U K feed nows (frame C U K feed nowTime L))"

text \<open>The state of \<^verbatim>\<open>main\<close> when the loop is entered, \<open>t0\<close> the first clock reading.\<close>

definition mainInit :: "Common \<Rightarrow> Draw \<Rightarrow> (nat \<Rightarrow> Draw) \<Rightarrow> real \<Rightarrow> Loop" where
  "mainInit C box draw t0 =
     \<lparr>lastTime = t0, deltaTime = 0, ticks = 0,
      world = \<lparr>entities = seedScene C box draw, shouldClose = False\<rparr>\<rparr>"

text \<open>
  For comparison with the loop: \<open>n\<close> ticks in a row, the first of them with the
  sample number \<open>k\<close>.
\<close>

fun runTicks ::
  "Common \<Rightarrow> (Entity \<Rightarrow> Entity) \<Rightarrow> (nat \<Rightarrow> Entity list \<Rightarrow> Entity list) \<Rightarrow>
     (nat \<Rightarrow> Entity \<times> Input) \<Rightarrow> nat \<Rightarrow> nat \<Rightarrow> State \<Rightarrow> State" where
  "runTicks C U K feed k 0 st = st"
| "runTicks C U K feed k (Suc n) st =
     runTicks C U K feed (Suc k) n (tick C U K (fst (feed k)) (snd (feed k)) st)"

section \<open>Integration and collisions, from the spec\<close>

text \<open>
  \<^verbatim>\<open>Vector2.h\<close> and \<^verbatim>\<open>Entity.cpp\<close> are not among the sources: the vector algebra,
  \<^verbatim>\<open>Entity::Update\<close>, \<^verbatim>\<open>Entity::CheckCollisions\<close> and the collision routines are
  written from sections 3, 4.1, 4.2 and 7 of the spec. What the spec leaves open is a
  parameter.
\<close>

text \<open>Modelled from the spec: the sum of two vectors (\<^verbatim>\<open>Vector2.h\<close> is missing).\<close>

definition vadd :: "Vector2 \<Rightarrow> Vector2 \<Rightarrow> Vector2" where
  "vadd a b = \<lparr>X = X a + X b, Y = Y a + Y b\<rparr>"

text \<open>Modelled from the spec: the difference of two vectors (\<^verbatim>\<open>Vector2.h\<close> is missing).\<close>

definition vsub :: "Vector2 \<Rightarrow> Vector2 \<Rightarrow> Vector2" where
  "vsub a b = \<lparr>X = X a - X b, Y = Y a - Y b\<rparr>"

text \<open>Modelled from the spec: a vector scaled by a number (\<^verbatim>\<open>Vector2.h\<close> is missing).\<close>

definition vscale :: "real \<Rightarrow> Vector2 \<Rightarrow> Vector2" where
  "vscale k a = \<lparr>X = k * X a, Y = k * Y a\<rparr>"

text \<open>Modelled from the spec: the dot product (\<^verbatim>\<open>Vector2.h\<close> is missing).\<close>

definition dot :: "Vector2 \<Rightarrow> Vector2 \<Rightarrow> real" where
  "dot a b = X a * X b + Y a * Y b"

text \<open>Modelled from the spec: the length of a vector (\<^verbatim>\<open>Vector2.h\<close> is missing).\<close>

definition vlength :: "Vector2 \<Rightarrow> real" where
  "vlength a = sqrt (dot a a)"

text \<open>
  Modelled from the spec: the distance between two centers (\<^verbatim>\<open>Vector2.h\<close> is
  missing).
\<close>

definition distance :: "Vector2 \<Rightarrow> Vector2 \<Rightarrow> real" where
  "distance a b = vlength (vsub b a)"

text \<open>
  Modelled from the spec: the circle-circle test of section 4.2 (the collision routines
  of \<^verbatim>\<open>Entity.cpp\<close> are missing). A collision is reported iff the distance between
  the centers is less than the sum of the radii; the result is the normal, from the
  center of \<open>a\<close> to the center of \<open>b\<close> with the unit vector \<open>n0\<close> where the centers
  coincide, and the penetration depth.
\<close>

definition circleCircle :: "Vector2 \<Rightarrow> Entity \<Rightarrow> Entity \<Rightarrow> (Vector2 \<times> real) option" where
  "circleCircle n0 a b =
     (let d = distance (position a) (position b);
          r = radius a + radius b
      in if d < r then
           Some (if d = 0 then n0 else vscale (1 / d) (vsub (position b) (position a)), r - d)
         else None)"

text \<open>
  Modelled from the spec: \<^verbatim>\<open>Entity::Update\<close>, section 4.1 (\<^verbatim>\<open>Entity.cpp\<close> is missing).
  A kinematic entity skips the update. Otherwise the force, which already holds what the
  input step put there, gives the acceleration; the velocity takes it up, is damped by
  the friction, is set to zero below the deactivation threshold and is clamped; the
  position moves by the velocity; the force is reset. The clamp has no bound in the spec
  and is the parameter \<open>clamp\<close>.
\<close>

definition Update :: "(Vector2 \<Rightarrow> Vector2) \<Rightarrow> Entity \<Rightarrow> Entity" where
  "Update clamp e =
     (if kinematic e then e
      else
        let acceleration = vscale (1 / mass e) (force e);
            v = vadd (velocity e) acceleration;
            v = vscale (1 - friction e) v;
            v = (if vlength v < deactivation e then \<lparr>X = 0, Y = 0\<rparr> else v);
            v = clamp v
        in e\<lparr>velocity := v, position := vadd (position e) v, force := \<lparr>X = 0, Y = 0\<rparr>\<rparr>)"

text \<open>
  Modelled from the spec: the inverse mass of section 4.2 (\<^verbatim>\<open>Entity.cpp\<close> is missing),
  zero for a kinematic entity.
\<close>

definition invMass :: "Entity \<Rightarrow> real" where
  "invMass e = (if kinematic e then 0 else 1 / mass e)"

text \<open>
  Modelled from the spec: the resolution of section 4.2, steps 1 to 4, for the normal
  \<open>n\<close> and the penetration depth \<open>d\<close> (\<^verbatim>\<open>Entity.cpp\<close> is missing). A pair whose
  inverse masses sum to zero is skipped (section 7). The depth is split in proportion to
  the inverse masses, \<open>a\<close> pushed against the normal and \<open>b\<close> along it; bodies that
  separate already receive no impulse. How the two bounciness values are combined is
  left open by the spec and is the parameter \<open>combine\<close>.
\<close>

definition resolve ::
  "(real \<Rightarrow> real \<Rightarrow> real) \<Rightarrow> Vector2 \<Rightarrow> real \<Rightarrow> Entity \<Rightarrow> Entity \<Rightarrow> Entity \<times> Entity" where
  "resolve combine n d a b =
     (let invMassA = invMass a; invMassB = invMass b
      in if invMassA + invMassB = 0 then (a, b)
         else
           let a = a\<lparr>position :=
                       vsub (position a) (vscale (d * (invMassA / (invMassA + invMassB))) n)\<rparr>;
               b = b\<lparr>position :=
                       vadd (position b) (vscale (d * (invMassB / (invMassA + invMassB))) n)\<rparr>;
               vRel = dot (vsub (velocity b) (velocity a)) n
           in if vRel > 0 then (a, b)
              else
                let e = combine (bounciness a) (bounciness b);
                    j = - (1 + e) * vRel / (invMassA + invMassB)
                in (a\<lparr>velocity := vsub (velocity a) (vscale (j * invMassA) n)\<rparr>,
                    b\<lparr>velocity := vadd (velocity b) (vscale (j * invMassB) n)\<rparr>))"

text \<open>
  Modelled from the spec: step 5 of the resolution, the hook \<^verbatim>\<open>Collision(other)\<close> of an
  entity (its bodies are missing). It does no physics and may change cosmetic state: of
  what the hook \<open>hook\<close> computes, the colour and the rotation are taken.
\<close>

definition cosmetic :: "(Entity \<Rightarrow> Entity \<Rightarrow> Entity) \<Rightarrow> Entity \<Rightarrow> Entity \<Rightarrow> Entity" where
  "cosmetic hook a b = a\<lparr>color := color (hook a b), rotation := rotation (hook a b)\<rparr>"

text \<open>
  What the spec leaves open in the collision engine: the narrow phase by shape pair
  (\<open>detect\<close>, the normal and the depth of a contact), the combination of the bounciness
  values and the hooks.
\<close>

record Physics =
  detect :: "Entity \<Rightarrow> Entity \<Rightarrow> (Vector2 \<times> real) option"
  combine :: "real \<Rightarrow> real \<Rightarrow> real"
  hook :: "Entity \<Rightarrow> Entity \<Rightarrow> Entity"

text \<open>
  Modelled from the spec: the test of the calling entity \<open>i\<close> against one other entity
  \<open>j\<close> and the resolution of the contact (\<^verbatim>\<open>Entity.cpp\<close> is missing). Both indices
  are below the size of the collection where \<open>CheckCollisions\<close> calls it.
\<close>

definition collidePair :: "Physics \<Rightarrow> nat \<Rightarrow> nat \<Rightarrow> Entity list \<Rightarrow> Entity list" where
  "collidePair P i j es =
     (if j = i then es
      else case detect P (es ! i) (es ! j) of
        None \<Rightarrow> es
      | Some (n, d) \<Rightarrow>
          (case resolve (combine P) n d (es ! i) (es ! j) of
            (a, b) \<Rightarrow> es[i := cosmetic (hook P) a b, j := cosmetic (hook P) b a]))"

text \<open>
  Modelled from the spec: \<^verbatim>\<open>Entity::CheckCollisions\<close>, section 4.2 (\<^verbatim>\<open>Entity.cpp\<close> is
  missing): the calling entity is tested against every other entity of the collection,
  in the order of the collection.
\<close>

definition CheckCollisions :: "Physics \<Rightarrow> nat \<Rightarrow> Entity list \<Rightarrow> Entity list" where
  "CheckCollisions P i es = fold (collidePair P i) [0..<length es] es"

text \<open>
  The relation between an entity before and after a step that the invariant of the
  kinematic entities needs: the flag is the same and, where it is set, so are position
  and velocity. \<open>preserved\<close> lifts it to a collection that may have grown at its end.
\<close>

definition keeps :: "Entity \<Rightarrow> Entity \<Rightarrow> bool" where
  "keeps e e' \<longleftrightarrow>
     kinematic e' = kinematic e \<and>
     (kinematic e \<longrightarrow> position e' = position e \<and> velocity e' = velocity e)"

definition preserved :: "Entity list \<Rightarrow> Entity list \<Rightarrow> bool" where
  "preserved es es' \<longleftrightarrow> length es \<le> length es' \<and> (\<forall>k<length es. keeps (es ! k) (es' ! k))"

section \<open>Concrete inputs\<close>

definition common0 :: Common where
  "common0 = \<lparr>SCREEN_WIDTH = 800, SCREEN_HEIGHT = 600, GRAVITY = 10, TICKS_PER_SECOND = 60\<rparr>"

definition ball :: Entity where
  "ball = \<lparr>position = \<lparr>X = 100, Y = 100\<rparr>, velocity = \<lparr>X = 0, Y = 0\<rparr>,
           force = \<lparr>X = 0, Y = 0\<rparr>, rotation = 0, mass = 2, color = [1, 0, 0],
           type = CIRCLE, kinematic = False, bounciness = 0.85, friction = 0.05,
           deactivation = 0.05, radius = 10, width = 0, length_box = 0\<rparr>"

definition crate :: Entity where
  "crate = ball\<lparr>position := \<lparr>X = 300, Y = 100\<rparr>, type := BOX, radius := 0, width := 20,
                 length_box := 20\<rparr>"

definition anchor :: Entity where
  "anchor = crate\<lparr>position := \<lparr>X = 500, Y = 50\<rparr>, kinematic := True\<rparr>"

definition idle :: Input where
  "idle = \<lparr>cursor_xpos = 40, cursor_ypos = 70, MOUSE_BUTTON_1 = False, MOUSE_BUTTON_2 = False,
           KEY_ESCAPE = False, KEY_W = False, KEY_S = False, KEY_A = False, KEY_D = False,
           KEY_RIGHT = False, KEY_LEFT = False\<rparr>"

definition scene0 :: State where
  "scene0 = \<lparr>entities = [ball, crate, anchor], shouldClose = False\<rparr>"

definition both_buttons :: Input where
  "both_buttons = idle\<lparr>MOUSE_BUTTON_1 := True, MOUSE_BUTTON_2 := True\<rparr>"

definition peg :: Entity where
  "peg = ball\<lparr>position := \<lparr>X = 120, Y = 100\<rparr>, kinematic := True\<rparr>"

definition post :: Entity where
  "post = ball\<lparr>position := \<lparr>X = 115, Y = 100\<rparr>, kinematic := True\<rparr>"

definition scene1 :: State where
  "scene1 = \<lparr>entities = [ball, post], shouldClose = False\<rparr>"

text \<open>
  An instance of the open parts for the concrete runs: contacts between circles by the
  spec's test and none reported for a pair with a box, the smaller bounciness, hooks that
  change nothing, no clamp.
\<close>

definition physics0 :: Physics where
  "physics0 =
     \<lparr>detect = (\<lambda>a b. if type a = CIRCLE \<and> type b = CIRCLE
                        then circleCircle \<lparr>X = 1, Y = 0\<rparr> a b else None),
      combine = min,
      hook = (\<lambda>a b. a)\<rparr>"

definition feed0 :: "nat \<Rightarrow> Entity \<times> Input" where
  "feed0 k = (ball, if k = 0 then idle\<lparr>KEY_D := True\<rparr> else idle)"

definition feed_late :: "nat \<Rightarrow> Entity \<times> Input" where
  "feed_late k = (if k < 6 then feed0 k else (crate, both_buttons))"

definition loop0 :: Loop where
  "loop0 = \<lparr>lastTime = 2, deltaTime = 1 / 2, ticks = 0, world = scene1\<rparr>"

definition box_draw :: Draw where
  "box_draw = \<lparr>draw_attrs = crate, rand_x = 1804289383, rand_y = 846930886\<rparr>"

definition circle_draws :: "nat \<Rightarrow> Draw" where
  "circle_draws i =
     (if i = 0 then \<lparr>draw_attrs = ball, rand_x = 1681692777, rand_y = 1714636915\<rparr>
      else \<lparr>draw_attrs = ball, rand_x = 1957747793, rand_y = 424238335\<rparr>)"

section \<open>Properties of the input step\<close>

lemma forEachFrom_length: "length (forEachFrom f i es) = length es"
proof (induction f i es rule: forEachFrom.induct)
  case (1 f i es)
  show ?case
  proof (cases "i < length es")
    case True
    with "1" show ?thesis by (subst forEachFrom.simps) simp
  next
    case False
    then show ?thesis by (subst forEachFrom.simps) simp
  qed
qed

lemma forEachFrom_nth:
  "j < length es \<Longrightarrow> forEachFrom f i es ! j = (if i \<le> j then f (es ! j) else es ! j)"
proof (induction f i es rule: forEachFrom.induct)
  case (1 f i es)
  show ?case
  proof (cases "i < length es")
    case True
    have "forEachFrom f i es ! j = forEachFrom f (Suc i) (es[i := f (es ! i)]) ! j"
      using True by (subst forEachFrom.simps) simp
    also have "\<dots> = (if Suc i \<le> j then f (es[i := f (es ! i)] ! j) else es[i := f (es ! i)] ! j)"
      using "1.IH" [OF True] "1.prems" by simp
    also have "\<dots> = (if i \<le> j then f (es ! j) else es ! j)"
      using True "1.prems" by (cases "i = j") auto
    finally show ?thesis .
  next
    case False
    with "1.prems" show ?thesis by (subst forEachFrom.simps) simp
  qed
qed

lemma forEachFrom_map: "forEachFrom f 0 es = map f es"
  by (rule nth_equalityI) (simp_all add: forEachFrom_length forEachFrom_nth)

lemma processInput_entities:
  "entities (processInput C attrs inp st) =
     map (applyInput C (movement inp) (rotation_input inp)) (entities st @ spawn C attrs inp)"
  by (simp add: processInput_def Let_def forEachFrom_map)

lemma length_spawn: "length (spawn C attrs inp) \<le> 1"
  by (simp add: spawn_def Let_def)

lemma processInput_nth_old:
  "i < length (entities st) \<Longrightarrow>
     entities (processInput C attrs inp st) ! i =
       applyInput C (movement inp) (rotation_input inp) (entities st ! i)"
  by (simp add: processInput_entities nth_append)

lemma checkLoop_fold: "i \<le> n \<Longrightarrow> checkLoop K n i es = fold K [i..<n] es"
proof (induction K n i es rule: checkLoop.induct)
  case (1 K n i es)
  show ?case
  proof (cases "i < n")
    case True
    then have "checkLoop K n i es = checkLoop K n (Suc i) (K i es)"
      by (subst checkLoop.simps) simp
    also have "\<dots> = fold K [Suc i..<n] (K i es)"
      using "1.IH" [OF True] True by simp
    also have "\<dots> = fold K [i..<n] es"
      using True by (simp add: upt_conv_Cons)
    finally show ?thesis .
  next
    case False
    then show ?thesis by (subst checkLoop.simps) simp
  qed
qed

lemma tick_eq:
  "tick C U K attrs inp st =
     (processInput C attrs inp st)
       \<lparr>entities := fold K [0..<length (entities (processInput C attrs inp st))]
                      (map U (entities (processInput C attrs inp st)))\<rparr>"
  by (simp add: tick_def Let_def forEachFrom_map checkLoop_fold)

lemma stepping_runTicks:
  "nat \<lfloor>deltaTime L\<rfloor> = n \<Longrightarrow>
     stepping C U K feed L =
       L\<lparr>world := runTicks C U K feed (ticks L) n (world L),
         ticks := ticks L + n,
         deltaTime := deltaTime L - real n\<rparr>"
proof (induction n arbitrary: L)
  case 0
  then have "\<not> 1 \<le> deltaTime L" by linarith
  then show ?case by (subst stepping.simps) simp
next
  case (Suc n)
  then have ge: "1 \<le> deltaTime L" by linarith
  let ?L = "L\<lparr>world := tick C U K (fst (feed (ticks L))) (snd (feed (ticks L))) (world L),
             ticks := Suc (ticks L), deltaTime := deltaTime L - 1\<rparr>"
  have "nat \<lfloor>deltaTime ?L\<rfloor> = n"
    using Suc.prems by simp
  from Suc.IH [OF this] have "stepping C U K feed ?L =
     ?L\<lparr>world := runTicks C U K feed (ticks ?L) n (world ?L),
         ticks := ticks ?L + n, deltaTime := deltaTime ?L - real n\<rparr>" .
  moreover have "stepping C U K feed L = stepping C U K feed ?L"
    using ge by (subst stepping.simps) simp
  ultimately show ?case by (simp add: algebra_simps)
qed

lemma tick_shouldClose:
  "shouldClose (tick C U K attrs inp st) = (KEY_ESCAPE inp \<or> shouldClose st)"
  by (simp add: tick_eq processInput_def Let_def)

lemma frame_eq:
  "frame C U K feed nowTime L =
     L\<lparr>lastTime := nowTime,
       deltaTime := deltaTime L + (nowTime - lastTime L) * TICKS_PER_SECOND C
         - real (nat \<lfloor>deltaTime L + (nowTime - lastTime L) * TICKS_PER_SECOND C\<rfloor>),
       ticks := ticks L + nat \<lfloor>deltaTime L + (nowTime - lastTime L) * TICKS_PER_SECOND C\<rfloor>,
       world := runTicks C U K feed (ticks L)
         (nat \<lfloor>deltaTime L + (nowTime - lastTime L) * TICKS_PER_SECOND C\<rfloor>) (world L)\<rparr>"
  by (simp add: frame_def Let_def stepping_runTicks)

lemma vlength_horizontal: "vlength \<lparr>X = a, Y = 0\<rparr> = \<bar>a\<bar>"
  by (simp add: vlength_def dot_def)

lemma upt_two: "[0..<2] = [0, 1]"
  by (simp add: upt_rec)

lemma processInput_nth:
  "i < length (entities st @ spawn C attrs inp) \<Longrightarrow>
     entities (processInput C attrs inp st) ! i =
       applyInput C (movement inp) (rotation_input inp) ((entities st @ spawn C attrs inp) ! i)"
  unfolding processInput_entities by (rule nth_map)

lemma spawn_cases:
  "spawn C attrs inp =
     (if MOUSE_BUTTON_1 inp then
        [EntityCircle attrs
           \<lparr>X = cursor_xpos inp, Y = real_of_int (SCREEN_HEIGHT C) - cursor_ypos inp\<rparr>]
      else if MOUSE_BUTTON_2 inp then
        [setKinematic True (EntityCircle attrs
           \<lparr>X = cursor_xpos inp, Y = real_of_int (SCREEN_HEIGHT C) - cursor_ypos inp\<rparr>)]
      else [])"
  by (simp add: spawn_def Let_def)

lemma applyInput_type [simp]: "type (applyInput C m rot e) = type e"
  by (simp add: applyInput_def Let_def)

lemma applyInput_kinematic [simp]: "kinematic (applyInput C m rot e) = kinematic e"
  by (simp add: applyInput_def Let_def isKinematic_def)

lemma applyInput_position [simp]: "position (applyInput C m rot e) = position e"
  by (simp add: applyInput_def Let_def)

lemma applyInput_velocity [simp]: "velocity (applyInput C m rot e) = velocity e"
  by (simp add: applyInput_def Let_def)

lemma applyInput_mass [simp]: "mass (applyInput C m rot e) = mass e"
  by (simp add: applyInput_def Let_def)

lemma applyInput_force:
  "force (applyInput C m rot e) =
     (if isKinematic e then force e
      else \<lparr>X = X (force e) + X m * mass e, Y = Y (force e) + Y m * (- GRAVITY C) * mass e\<rparr>)"
  by (simp add: applyInput_def Let_def)

lemma applyInput_rotation:
  "rotation (applyInput C m rot e) = (if type e = BOX then rotation e + rot else rotation e)"
  by (simp add: applyInput_def Let_def)

lemma movement_Y: "Y (movement inp) = (if KEY_W inp then 5 else if KEY_S inp then - 5 else 0)"
  by (simp add: movement_def Let_def)

lemma movement_X: "X (movement inp) = (if KEY_A inp then - 5 else if KEY_D inp then 5 else 0)"
  by (simp add: movement_def Let_def)

subsection \<open>The force added to force.y\<close>

text \<open>
  C3, as stated, fails: the input step does not add \<open>- GRAVITY * mass\<close> to
  \<open>force.y\<close> of a non-kinematic entity. With no key held the ball's \<open>force.y\<close> is
  unchanged, and with W held the step adds five times that amount.
\<close>

theorem processInput_gravity_counterexample:
  "Y (force (entities (processInput common0 ball idle scene0) ! 0)) \<noteq>
     Y (force (entities scene0 ! 0)) + (- GRAVITY common0) * mass (entities scene0 ! 0)
   \<and> Y (force (entities (processInput common0 ball (idle\<lparr>KEY_W := True\<rparr>) scene0) ! 0)) \<noteq>
     Y (force (entities scene0 ! 0)) + (- GRAVITY common0) * mass (entities scene0 ! 0)"
  by (simp add: processInput_entities scene0_def applyInput_force isKinematic_def ball_def
      common0_def movement_Y idle_def)

text \<open>
  C3, amended: for every non-kinematic entity of the collection, the circle that a click
  of the same tick has created included, the input step adds exactly
  \<open>movement.y * - GRAVITY * mass\<close> to \<open>force.y\<close>, where \<open>movement.y\<close> is 5 while W is
  held, -5 while S is held without W, and 0 otherwise; \<^verbatim>\<open>Update\<close> is then called on the
  entities with the force so computed in place.
\<close>

theorem processInput_force_y:
  "i < length (entities st @ spawn C attrs inp) \<Longrightarrow>
   \<not> isKinematic ((entities st @ spawn C attrs inp) ! i) \<Longrightarrow>
     (let e = (entities st @ spawn C attrs inp) ! i;
          forced = entities (processInput C attrs inp st)
      in Y (force (forced ! i)) = Y (force e) + Y (movement inp) * (- GRAVITY C) * mass e
         \<and> Y (movement inp) = (if KEY_W inp then 5 else if KEY_S inp then - 5 else 0)
         \<and> length forced = length (entities st @ spawn C attrs inp)
         \<and> entities (tick C U K attrs inp st) =
             fold K [0..<length forced] (map U forced))"
  by (simp only: processInput_nth Let_def)
     (simp add: applyInput_force movement_Y tick_eq processInput_entities)

theorem processInput_force_y_witness:
  "\<not> isKinematic ((entities scene0 @ spawn common0 ball
        (idle\<lparr>KEY_W := True, MOUSE_BUTTON_1 := True\<rparr>)) ! 3) \<and>
   \<not> isKinematic ((entities scene0 @ spawn common0 ball
        (idle\<lparr>KEY_W := True, MOUSE_BUTTON_1 := True\<rparr>)) ! 0) \<and>
   Y (force (entities (processInput common0 ball
        (idle\<lparr>KEY_W := True, MOUSE_BUTTON_1 := True\<rparr>) scene0) ! 0)) = - 100 \<and>
   Y (force (entities (processInput common0 ball
        (idle\<lparr>KEY_W := True, MOUSE_BUTTON_1 := True\<rparr>) scene0) ! 3)) = - 100 \<and>
   Y (force (entities (tick common0 id (\<lambda>i es. es) ball
        (idle\<lparr>KEY_W := True, MOUSE_BUTTON_1 := True\<rparr>) scene0) ! 3)) = - 100"
  using processInput_force_y [where i = 0 and st = scene0 and C = common0 and attrs = ball
      and inp = "idle\<lparr>KEY_W := True, MOUSE_BUTTON_1 := True\<rparr>" and U = id and K = "\<lambda>i es. es"]
    processInput_force_y [where i = 3 and st = scene0 and C = common0 and attrs = ball
      and inp = "idle\<lparr>KEY_W := True, MOUSE_BUTTON_1 := True\<rparr>" and U = id and K = "\<lambda>i es. es"]
  by (simp add: scene0_def spawn_cases idle_def isKinematic_def ball_def crate_def anchor_def
      common0_def Let_def EntityCircle_def)

subsection \<open>Entities created by clicks\<close>

text \<open>
  C6, as stated, fails: on a tick with both buttons pressed the secondary click
  occurred, yet the one entity appended is not kinematic (the fourth flag below; the
  third is the anchor that was there before).
\<close>

theorem processInput_both_buttons_counterexample:
  "MOUSE_BUTTON_2 both_buttons \<and>
   map isKinematic (entities (processInput common0 ball both_buttons scene0)) =
     [False, False, True, False]"
  by (simp add: processInput_entities spawn_cases both_buttons_def idle_def scene0_def
      isKinematic_def ball_def crate_def anchor_def EntityCircle_def)

text \<open>
  C6, amended: on every tick in which a primary click occurred, one new non-kinematic
  entity is appended to the collection at the cursor position; on every tick in which a
  secondary click occurred and no primary click occurred, one new kinematic entity is
  appended at the cursor position. The cursor position is the one of the window with the
  y axis turned upwards, \<open>(xpos, SCREEN_HEIGHT - ypos)\<close>, and the entities that were
  there before keep their places.
\<close>

theorem processInput_click_spawns:
  "(MOUSE_BUTTON_1 inp \<longrightarrow>
      length (entities (processInput C attrs inp st)) = Suc (length (entities st)) \<and>
      butlast (entities (processInput C attrs inp st)) =
        map (applyInput C (movement inp) (rotation_input inp)) (entities st) \<and>
      position (last (entities (processInput C attrs inp st))) =
        \<lparr>X = cursor_xpos inp, Y = real_of_int (SCREEN_HEIGHT C) - cursor_ypos inp\<rparr> \<and>
      \<not> isKinematic (last (entities (processInput C attrs inp st))))
   \<and> (\<not> MOUSE_BUTTON_1 inp \<and> MOUSE_BUTTON_2 inp \<longrightarrow>
      length (entities (processInput C attrs inp st)) = Suc (length (entities st)) \<and>
      butlast (entities (processInput C attrs inp st)) =
        map (applyInput C (movement inp) (rotation_input inp)) (entities st) \<and>
      position (last (entities (processInput C attrs inp st))) =
        \<lparr>X = cursor_xpos inp, Y = real_of_int (SCREEN_HEIGHT C) - cursor_ypos inp\<rparr> \<and>
      isKinematic (last (entities (processInput C attrs inp st))))"
  by (simp add: processInput_entities spawn_cases isKinematic_def EntityCircle_def
      setKinematic_def)

theorem processInput_click_spawns_witness:
  "MOUSE_BUTTON_1 (idle\<lparr>MOUSE_BUTTON_1 := True\<rparr>) \<and>
   \<not> MOUSE_BUTTON_1 (idle\<lparr>MOUSE_BUTTON_2 := True\<rparr>) \<and>
   MOUSE_BUTTON_2 (idle\<lparr>MOUSE_BUTTON_2 := True\<rparr>) \<and>
   length (entities (processInput common0 ball (idle\<lparr>MOUSE_BUTTON_1 := True\<rparr>) scene0)) = 4 \<and>
   position (last (entities (processInput common0 ball (idle\<lparr>MOUSE_BUTTON_1 := True\<rparr>) scene0))) =
     \<lparr>X = 40, Y = 530\<rparr> \<and>
   \<not> isKinematic (last (entities (processInput common0 ball (idle\<lparr>MOUSE_BUTTON_1 := True\<rparr>) scene0))) \<and>
   length (entities (processInput common0 ball (idle\<lparr>MOUSE_BUTTON_2 := True\<rparr>) scene0)) = 4 \<and>
   isKinematic (last (entities (processInput common0 ball (idle\<lparr>MOUSE_BUTTON_2 := True\<rparr>) scene0)))"
  using processInput_click_spawns [of "idle\<lparr>MOUSE_BUTTON_1 := True\<rparr>" common0 ball scene0]
    processInput_click_spawns [of "idle\<lparr>MOUSE_BUTTON_2 := True\<rparr>" common0 ball scene0]
  by (simp add: idle_def scene0_def common0_def)

subsection \<open>What the input step leaves alone\<close>

text \<open>
  C7: the input step leaves force, velocity and position of every kinematic entity
  unchanged, adds the rotation read from the keys (1 for RIGHT, -1 for LEFT without
  RIGHT, else 0) to the rotation of every entity of type BOX, kinematic or not, so that a
  held rotation key changes it, and leaves the rotation of every other entity unchanged.
  The entities are those of the collection after the click of the tick has been handled.
\<close>

theorem processInput_kinematic_frame:
  "i < length (entities st @ spawn C attrs inp) \<Longrightarrow>
     (let e = (entities st @ spawn C attrs inp) ! i;
          e' = entities (processInput C attrs inp st) ! i
      in (isKinematic e \<longrightarrow>
            force e' = force e \<and> velocity e' = velocity e \<and> position e' = position e)
         \<and> (type e = BOX \<longrightarrow> rotation e' = rotation e + rotation_input inp)
         \<and> (type e = BOX \<and> (KEY_RIGHT inp \<or> KEY_LEFT inp) \<longrightarrow> rotation e' \<noteq> rotation e)
         \<and> (type e \<noteq> BOX \<longrightarrow> rotation e' = rotation e)
         \<and> rotation_input inp = (if KEY_RIGHT inp then 1 else if KEY_LEFT inp then - 1 else 0))"
  by (simp only: processInput_nth Let_def)
     (simp add: applyInput_force applyInput_rotation rotation_input_def)

theorem processInput_kinematic_frame_witness:
  "isKinematic (entities scene0 ! 2) \<and> type (entities scene0 ! 2) = BOX \<and>
   type (entities scene0 ! 0) \<noteq> BOX \<and> KEY_RIGHT (idle\<lparr>KEY_RIGHT := True, KEY_W := True\<rparr>) \<and>
   force (entities (processInput common0 ball (idle\<lparr>KEY_RIGHT := True, KEY_W := True\<rparr>) scene0) ! 2) =
     force anchor \<and>
   rotation (entities (processInput common0 ball (idle\<lparr>KEY_RIGHT := True, KEY_W := True\<rparr>) scene0) ! 2) = 1 \<and>
   rotation (entities (processInput common0 ball (idle\<lparr>KEY_RIGHT := True, KEY_W := True\<rparr>) scene0) ! 0) = 0"
  using
    processInput_kinematic_frame [of 2 scene0 common0 ball "idle\<lparr>KEY_RIGHT := True, KEY_W := True\<rparr>"]
    processInput_kinematic_frame [of 0 scene0 common0 ball "idle\<lparr>KEY_RIGHT := True, KEY_W := True\<rparr>"]
  by (simp add: scene0_def spawn_cases idle_def isKinematic_def anchor_def crate_def ball_def
      Let_def rotation_input_def)

subsection \<open>The same input force for every entity\<close>

text \<open>
  C9: on every tick each non-kinematic entity receives \<open>movement.x * mass\<close> on
  \<open>force.x\<close> and \<open>movement.y * - GRAVITY * mass\<close> on \<open>force.y\<close>, for the one movement
  vector read from the keys; divided by the entity's mass (where that is not zero) the
  increment is the same for all of them.
\<close>

theorem processInput_uniform_force:
  "i < length (entities st @ spawn C attrs inp) \<Longrightarrow>
   \<not> isKinematic ((entities st @ spawn C attrs inp) ! i) \<Longrightarrow>
     (let e = (entities st @ spawn C attrs inp) ! i;
          e' = entities (processInput C attrs inp st) ! i
      in X (force e') = X (force e) + X (movement inp) * mass e
         \<and> Y (force e') = Y (force e) + Y (movement inp) * (- GRAVITY C) * mass e
         \<and> mass e' = mass e
         \<and> (mass e \<noteq> 0 \<longrightarrow>
              (X (force e') - X (force e)) / mass e = X (movement inp) \<and>
              (Y (force e') - Y (force e)) / mass e = Y (movement inp) * (- GRAVITY C))
         \<and> X (movement inp) = (if KEY_A inp then - 5 else if KEY_D inp then 5 else 0)
         \<and> Y (movement inp) = (if KEY_W inp then 5 else if KEY_S inp then - 5 else 0))"
  by (simp only: processInput_nth Let_def) (simp add: applyInput_force movement_X movement_Y)

theorem processInput_uniform_force_witness:
  "\<not> isKinematic (entities scene0 ! 1) \<and> mass (entities scene0 ! 1) \<noteq> 0 \<and>
   X (force (entities (processInput common0 ball (idle\<lparr>KEY_S := True, KEY_D := True\<rparr>) scene0) ! 1)) = 10 \<and>
   Y (force (entities (processInput common0 ball (idle\<lparr>KEY_S := True, KEY_D := True\<rparr>) scene0) ! 1)) = 100"
  using processInput_uniform_force [of 1 scene0 common0 ball "idle\<lparr>KEY_S := True, KEY_D := True\<rparr>"]
  by (simp add: scene0_def spawn_cases idle_def isKinematic_def crate_def ball_def common0_def
      Let_def)

subsection \<open>Only circles are created by input\<close>

lemma seedCircles_unfold:
  "seedCircles C draw 0 es =
     es @ [EntityCircle (draw_attrs (draw 0))
             \<lparr>X = real_of_int (rand_x (draw 0) smod SCREEN_WIDTH C - 20),
              Y = real_of_int (rand_y (draw 0) smod SCREEN_HEIGHT C - 20)\<rparr>,
           EntityCircle (draw_attrs (draw 1))
             \<lparr>X = real_of_int (rand_x (draw 1) smod SCREEN_WIDTH C - 20),
              Y = real_of_int (rand_y (draw 1) smod SCREEN_HEIGHT C - 20)\<rparr>]"
proof -
  have two: "\<not> (Suc (Suc 0) < 2)" by simp
  show ?thesis
    by (subst seedCircles.simps, simp, subst seedCircles.simps, simp,
        subst seedCircles.simps, simp only: two if_False)
qed

text \<open>
  C10: the input step appends a circle when a button was pressed and nothing otherwise,
  and changes the type of no entity, so no box comes from input; the box of the program
  is the first entity of the seeded scene; with both buttons pressed the one entity
  appended is not kinematic.
\<close>

theorem processInput_spawns_circles:
  "map type (entities (processInput C attrs inp st)) =
     map type (entities st) @ (if MOUSE_BUTTON_1 inp \<or> MOUSE_BUTTON_2 inp then [CIRCLE] else [])
   \<and> map type (entities (world (mainInit C box draw t0))) = [BOX, CIRCLE, CIRCLE]
   \<and> (MOUSE_BUTTON_1 inp \<and> MOUSE_BUTTON_2 inp \<longrightarrow>
        map isKinematic (entities (processInput C attrs inp st)) =
          map isKinematic (entities st) @ [False])"
  by (simp add: processInput_entities spawn_cases isKinematic_def EntityCircle_def
      setKinematic_def comp_def mainInit_def seedScene_def seedCircles_unfold EntityBox_def)

theorem processInput_spawns_circles_witness:
  "MOUSE_BUTTON_1 both_buttons \<and> MOUSE_BUTTON_2 both_buttons \<and>
   map type (entities (processInput common0 ball both_buttons scene0)) =
     [CIRCLE, BOX, BOX, CIRCLE]"
  using processInput_spawns_circles [where C = common0 and attrs = ball and inp = both_buttons
      and st = scene0]
  by (simp add: both_buttons_def idle_def scene0_def ball_def crate_def anchor_def)

section \<open>Properties of the seeded scene and of the loop\<close>

text \<open>
  C8: when the loop of \<^verbatim>\<open>main\<close> is entered and no tick has run, the collection holds
  exactly three entities, a box followed by two circles, none of them kinematic, at the
  positions computed from the values of \<^verbatim>\<open>rand()\<close>.
\<close>

theorem mainInit_seeded_scene:
  "entities (world (mainInit C box draw t0)) =
     [EntityBox (draw_attrs box)
        \<lparr>X = real_of_int (rand_x box smod SCREEN_WIDTH C) * 0.8,
         Y = real_of_int (rand_y box smod SCREEN_HEIGHT C - 200)\<rparr>,
      EntityCircle (draw_attrs (draw 0))
        \<lparr>X = real_of_int (rand_x (draw 0) smod SCREEN_WIDTH C - 20),
         Y = real_of_int (rand_y (draw 0) smod SCREEN_HEIGHT C - 20)\<rparr>,
      EntityCircle (draw_attrs (draw 1))
        \<lparr>X = real_of_int (rand_x (draw 1) smod SCREEN_WIDTH C - 20),
         Y = real_of_int (rand_y (draw 1) smod SCREEN_HEIGHT C - 20)\<rparr>]
   \<and> map type (entities (world (mainInit C box draw t0))) = [BOX, CIRCLE, CIRCLE]
   \<and> map isKinematic (entities (world (mainInit C box draw t0))) = [False, False, False]
   \<and> ticks (mainInit C box draw t0) = 0"
  by (simp add: mainInit_def seedScene_def seedCircles_unfold EntityBox_def EntityCircle_def
      isKinematic_def)

theorem mainInit_seeded_scene_witness:
  "map position (entities (world (mainInit common0 box_draw circle_draws 0))) =
     [\<lparr>X = 466.4, Y = 86\<rparr>, \<lparr>X = 757, Y = 95\<rparr>, \<lparr>X = 573, Y = 515\<rparr>]"
  using mainInit_seeded_scene [of common0 box_draw circle_draws 0]
  by (simp add: box_draw_def circle_draws_def common0_def EntityBox_def EntityCircle_def
      signed_modulo_int_def)

text \<open>
  C1: a frame adds the elapsed time times \<^verbatim>\<open>TICKS_PER_SECOND\<close> to the accumulator and
  then runs one tick for each whole unit in it, taking 1 off for each: after the frame
  the accumulator holds the fraction that is left and the world is the result of that
  many ticks, one after the other. A tick first applies the input: the click's circle is
  appended and every non-kinematic entity receives the movement scaled by its mass on its
  force (every box the rotation); then \<^verbatim>\<open>Update\<close> runs on every entity; then, on the
  collection in which all entities are integrated, \<^verbatim>\<open>CheckCollisions\<close> runs once for
  each index in order, each call given the whole collection.
\<close>

theorem frame_runs_whole_ticks:
  "frame C U K feed nowTime L =
     (let acc = deltaTime L + (nowTime - lastTime L) * TICKS_PER_SECOND C;
          n = nat \<lfloor>acc\<rfloor>
      in L\<lparr>lastTime := nowTime,
           deltaTime := acc - real n,
           ticks := ticks L + n,
           world := runTicks C U K feed (ticks L) n (world L)\<rparr>)
   \<and> runTicks C U K feed k 0 st = st
   \<and> runTicks C U K feed k (Suc r) st =
       runTicks C U K feed (Suc k) r (tick C U K (fst (feed k)) (snd (feed k)) st)
   \<and> tick C U K attrs inp st =
     (let forced = map (applyInput C (movement inp) (rotation_input inp))
                     (entities st @ spawn C attrs inp);
          integrated = map U forced
      in \<lparr>entities = fold K [0..<length integrated] integrated,
          shouldClose = (KEY_ESCAPE inp \<or> shouldClose st)\<rparr>)
   \<and> applyInput C m rot e =
       (if isKinematic e then e
        else e\<lparr>force := \<lparr>X = X (force e) + X m * mass e,
                          Y = Y (force e) + Y m * (- GRAVITY C) * mass e\<rparr>\<rparr>)
       \<lparr>rotation := (if type e = BOX then rotation e + rot else rotation e)\<rparr>"
proof (intro conjI)
  show "tick C U K attrs inp st =
     (let forced = map (applyInput C (movement inp) (rotation_input inp))
                     (entities st @ spawn C attrs inp);
          integrated = map U forced
      in \<lparr>entities = fold K [0..<length integrated] integrated,
          shouldClose = (KEY_ESCAPE inp \<or> shouldClose st)\<rparr>)"
    by (rule State.equality)
       (simp_all add: tick_shouldClose Let_def, simp add: tick_eq processInput_entities)
  show "applyInput C m rot e =
       (if isKinematic e then e
        else e\<lparr>force := \<lparr>X = X (force e) + X m * mass e,
                          Y = Y (force e) + Y m * (- GRAVITY C) * mass e\<rparr>\<rparr>)
       \<lparr>rotation := (if type e = BOX then rotation e + rot else rotation e)\<rparr>"
    by (simp add: applyInput_def Let_def)
qed (simp_all add: frame_def Let_def stepping_runTicks)

theorem frame_runs_whole_ticks_witness:
  "ticks (frame common0 (Update id) (CheckCollisions physics0) feed0 2.05 loop0) = 3 \<and>
   deltaTime (frame common0 (Update id) (CheckCollisions physics0) feed0 2.05 loop0) = 1 / 2 \<and>
   lastTime (frame common0 (Update id) (CheckCollisions physics0) feed0 2.05 loop0) = 2.05 \<and>
   entities (tick common0 (Update id) (CheckCollisions physics0) ball (idle\<lparr>KEY_D := True\<rparr>) scene1) =
     [ball\<lparr>position := \<lparr>X = 95, Y = 100\<rparr>, velocity := \<lparr>X = - 4.0375, Y = 0\<rparr>\<rparr>, post]"
proof -
  note T = frame_runs_whole_ticks [where C = common0 and U = "Update id" and K = "CheckCollisions physics0"
      and feed = feed0 and nowTime = "2.05" and L = loop0 and attrs = ball
      and inp = "idle\<lparr>KEY_D := True\<rparr>" and st = scene1]
  note body = frame_runs_whole_ticks [THEN conjunct2, THEN conjunct2, THEN conjunct2, THEN conjunct2]
  have "ticks (frame common0 (Update id) (CheckCollisions physics0) feed0 2.05 loop0) = 3 \<and>
    deltaTime (frame common0 (Update id) (CheckCollisions physics0) feed0 2.05 loop0) = 1 / 2 \<and>
    lastTime (frame common0 (Update id) (CheckCollisions physics0) feed0 2.05 loop0) = 2.05"
    using T [THEN conjunct1] by (simp add: loop0_def common0_def Let_def)
  moreover have "entities (tick common0 (Update id) (CheckCollisions physics0) ball
      (idle\<lparr>KEY_D := True\<rparr>) scene1) =
     [ball\<lparr>position := \<lparr>X = 95, Y = 100\<rparr>, velocity := \<lparr>X = - 4.0375, Y = 0\<rparr>\<rparr>, post]"
    using T [THEN conjunct2, THEN conjunct2, THEN conjunct2, THEN conjunct1]
    by (simp add: body spawn_cases movement_def rotation_input_def
      scene1_def idle_def isKinematic_def ball_def post_def common0_def Let_def
      Update_def vadd_def vsub_def vscale_def vlength_horizontal upt_two CheckCollisions_def
      collidePair_def physics0_def circleCircle_def distance_def resolve_def invMass_def
      dot_def cosmetic_def)
  ultimately show ?thesis by blast
qed

section \<open>Determinism of the fixed timestep\<close>

lemma runTicks_cong:
  "(\<And>j. j < n \<Longrightarrow> f (k + j) = g (k + j)) \<Longrightarrow>
     runTicks C U K f k n st = runTicks C U K g k n st"
proof (induction n arbitrary: k st)
  case 0
  show ?case by simp
next
  case (Suc n)
  have head: "f k = g k" using Suc.prems [of 0] by simp
  have "runTicks C U K f (Suc k) n (tick C U K (fst (g k)) (snd (g k)) st) =
        runTicks C U K g (Suc k) n (tick C U K (fst (g k)) (snd (g k)) st)"
  proof (rule Suc.IH)
    fix j
    assume "j < n"
    then show "f (Suc k + j) = g (Suc k + j)" using Suc.prems [of "Suc j"] by simp
  qed
  with head show ?case by simp
qed

lemma runTicks_add:
  "runTicks C U K feed k (a + b) st = runTicks C U K feed (k + a) b (runTicks C U K feed k a st)"
  by (induction a arbitrary: k st) simp_all

lemma runTicks_shouldClose:
  "(\<And>j. \<not> KEY_ESCAPE (snd (feed j))) \<Longrightarrow>
     shouldClose (runTicks C U K feed k n st) = shouldClose st"
  by (induction n arbitrary: k st) (simp_all add: tick_shouldClose)

lemma mainLoop_runTicks:
  "ticks L \<le> ticks (mainLoop C U K feed nows L) \<and>
   world (mainLoop C U K feed nows L) =
     runTicks C U K feed (ticks L) (ticks (mainLoop C U K feed nows L) - ticks L) (world L)"
proof (induction nows arbitrary: L)
  case Nil
  show ?case by simp
next
  case (Cons nowTime nows)
  show ?case
  proof (cases "shouldClose (world L)")
    case True
    then show ?thesis by simp
  next
    case False
    let ?F = "frame C U K feed nowTime L"
    let ?n = "nat \<lfloor>deltaTime L + (nowTime - lastTime L) * TICKS_PER_SECOND C\<rfloor>"
    let ?M = "mainLoop C U K feed nows ?F"
    have tF: "ticks ?F = ticks L + ?n" and wF: "world ?F = runTicks C U K feed (ticks L) ?n (world L)"
      by (simp_all add: frame_eq)
    from Cons.IH [of ?F] have le: "ticks ?F \<le> ticks ?M"
      and w: "world ?M = runTicks C U K feed (ticks ?F) (ticks ?M - ticks ?F) (world ?F)"
      by simp_all
    have split: "ticks ?M - ticks L = ?n + (ticks ?M - ticks ?F)"
      using le tF by simp
    have "world ?M = runTicks C U K feed (ticks L) (ticks ?M - ticks L) (world L)"
      unfolding split runTicks_add using w tF wF by simp
    moreover have "ticks L \<le> ticks ?M" using le tF by simp
    moreover have "mainLoop C U K feed (nowTime # nows) L = ?M" using False by simp
    ultimately show ?thesis by simp
  qed
qed

text \<open>
  C5: the positions after a run are a function of the entities at the start, in their
  insertion order, and of the inputs of the ticks, in their order. Two runs of the main
  loop from the same world that run the same number of ticks on the same inputs end in
  the same world, whatever the clock readings of their frames were; so do two runs of
  \<open>n\<close> ticks whose inputs agree on those ticks; and the world after a run of the main loop
  is the world after that many ticks. \<^verbatim>\<open>Update\<close> and \<^verbatim>\<open>CheckCollisions\<close> are any
  functions of the entities; numbers are reals, as everywhere here.
\<close>

theorem fixed_timestep_determinism:
  "(world LA = world LB \<and> ticks LA = ticks LB \<and>
    ticks (mainLoop C U K feedA nowsA LA) = ticks (mainLoop C U K feedB nowsB LB) \<and>
    (\<forall>j. ticks LA \<le> j \<and> j < ticks (mainLoop C U K feedA nowsA LA) \<longrightarrow> feedA j = feedB j)
    \<longrightarrow>
      world (mainLoop C U K feedA nowsA LA) = world (mainLoop C U K feedB nowsB LB) \<and>
      map position (entities (world (mainLoop C U K feedA nowsA LA))) =
        map position (entities (world (mainLoop C U K feedB nowsB LB))))
   \<and> ((\<forall>j<n. feedA (k + j) = feedB (k + j)) \<longrightarrow>
        runTicks C U K feedA k n st = runTicks C U K feedB k n st)
   \<and> world (mainLoop C U K feedA nowsA LA) =
       runTicks C U K feedA (ticks LA) (ticks (mainLoop C U K feedA nowsA LA) - ticks LA) (world LA)"
proof (intro conjI impI)
  assume a: "world LA = world LB \<and> ticks LA = ticks LB \<and>
    ticks (mainLoop C U K feedA nowsA LA) = ticks (mainLoop C U K feedB nowsB LB) \<and>
    (\<forall>j. ticks LA \<le> j \<and> j < ticks (mainLoop C U K feedA nowsA LA) \<longrightarrow> feedA j = feedB j)"
  let ?N = "ticks (mainLoop C U K feedA nowsA LA) - ticks LA"
  have le: "ticks LA \<le> ticks (mainLoop C U K feedA nowsA LA)"
    using mainLoop_runTicks [of LA C U K feedA nowsA] by simp
  have "world (mainLoop C U K feedA nowsA LA) = runTicks C U K feedA (ticks LA) ?N (world LA)"
    using mainLoop_runTicks [of LA C U K feedA nowsA] by simp
  also have "\<dots> = runTicks C U K feedB (ticks LA) ?N (world LA)"
  proof (rule runTicks_cong)
    fix j
    assume "j < ?N"
    then show "feedA (ticks LA + j) = feedB (ticks LA + j)" using a le by auto
  qed
  also have "\<dots> = world (mainLoop C U K feedB nowsB LB)"
    using mainLoop_runTicks [of LB C U K feedB nowsB] a by simp
  finally show w: "world (mainLoop C U K feedA nowsA LA) = world (mainLoop C U K feedB nowsB LB)" .
  then show "map position (entities (world (mainLoop C U K feedA nowsA LA))) =
        map position (entities (world (mainLoop C U K feedB nowsB LB)))" by simp
next
  assume "\<forall>j<n. feedA (k + j) = feedB (k + j)"
  then show "runTicks C U K feedA k n st = runTicks C U K feedB k n st"
    by (intro runTicks_cong) simp
next
  show "world (mainLoop C U K feedA nowsA LA) =
       runTicks C U K feedA (ticks LA) (ticks (mainLoop C U K feedA nowsA LA) - ticks LA) (world LA)"
    using mainLoop_runTicks [of LA C U K feedA nowsA] by simp
qed

lemma feed0_no_escape: "\<not> KEY_ESCAPE (snd (feed0 j))"
  by (simp add: feed0_def idle_def)

lemma feed_late_no_escape: "\<not> KEY_ESCAPE (snd (feed_late j))"
  by (simp add: feed_late_def feed0_def idle_def both_buttons_def)

lemma two_frames_six_ticks:
  "ticks (mainLoop common0 U K feed0 [2.05, 2.1] loop0) = 6"
  by (simp add: frame_eq runTicks_shouldClose [OF feed0_no_escape] loop0_def common0_def
      scene1_def)

lemma one_frame_six_ticks:
  "ticks (mainLoop common0 U K feed_late [2.1] loop0) = 6"
  by (simp add: frame_eq runTicks_shouldClose [OF feed_late_no_escape] loop0_def common0_def
      scene1_def)

theorem fixed_timestep_determinism_witness:
  "world loop0 = world loop0 \<and>
   ticks (mainLoop common0 (Update id) (CheckCollisions physics0) feed0 [2.05, 2.1] loop0) =
     ticks (mainLoop common0 (Update id) (CheckCollisions physics0) feed_late [2.1] loop0) \<and>
   world (mainLoop common0 (Update id) (CheckCollisions physics0) feed0 [2.05, 2.1] loop0) =
     world (mainLoop common0 (Update id) (CheckCollisions physics0) feed_late [2.1] loop0) \<and>
   runTicks common0 (Update id) (CheckCollisions physics0) feed0 0 6 scene1 =
     runTicks common0 (Update id) (CheckCollisions physics0) feed_late 0 6 scene1"
  using fixed_timestep_determinism [where LA = loop0 and LB = loop0 and C = common0 and U = "Update id"
      and K = "CheckCollisions physics0" and feedA = feed0 and feedB = feed_late
      and nowsA = "[2.05, 2.1]" and nowsB = "[2.1]" and n = 6 and k = 0 and st = scene1]
    two_frames_six_ticks [of "Update id" "CheckCollisions physics0"]
    one_frame_six_ticks [of "Update id" "CheckCollisions physics0"]
  by (simp add: feed_late_def loop0_def del: mainLoop.simps)


section \<open>Properties of the integration and the collisions of the spec\<close>

subsection \<open>The circle-circle test\<close>

lemma distance_aligned: "distance \<lparr>X = 100, Y = 100\<rparr> \<lparr>X = 120, Y = 100\<rparr> = 20"
proof -
  have "sqrt 400 = 20" by (rule real_sqrt_unique) simp_all
  then show ?thesis by (simp add: distance_def vlength_def dot_def vsub_def)
qed

text \<open>
  C4: for two circles the test reports a collision if and only if the distance between
  the centers is less than the sum of the radii; at equality it reports none.
\<close>

theorem circleCircle_collides_iff:
  "(circleCircle n0 a b \<noteq> None) =
     (distance (position a) (position b) < radius a + radius b)
   \<and> (distance (position a) (position b) = radius a + radius b \<longrightarrow> circleCircle n0 a b = None)"
  by (simp add: circleCircle_def Let_def)

theorem circleCircle_collides_iff_witness:
  "distance (position ball) (position peg) = radius ball + radius peg \<and>
   circleCircle \<lparr>X = 1, Y = 0\<rparr> ball peg = None"
  using circleCircle_collides_iff [of "\<lparr>X = 1, Y = 0\<rparr>" ball peg] distance_aligned
  by (simp add: ball_def peg_def)

subsection \<open>Kinematic entities stay where they are\<close>

lemma keeps_refl [simp]: "keeps e e"
  by (simp add: keeps_def)

lemma keeps_trans: "keeps a b \<Longrightarrow> keeps b c \<Longrightarrow> keeps a c"
  by (auto simp: keeps_def)

lemma preserved_refl [simp]: "preserved es es"
  by (simp add: preserved_def)

lemma preserved_trans: "preserved a b \<Longrightarrow> preserved b c \<Longrightarrow> preserved a c"
  unfolding preserved_def by (auto intro: keeps_trans)

lemma vzero [simp]: "vsub p (vscale 0 n) = p" "vadd p (vscale 0 n) = p"
  by (simp_all add: vsub_def vadd_def vscale_def)

lemma Update_keeps: "keeps e (Update clamp e)"
  by (simp add: keeps_def Update_def Let_def)

lemma resolve_keeps:
  "keeps a (fst (resolve c n d a b))" "keeps b (snd (resolve c n d a b))"
  by (simp_all add: keeps_def resolve_def Let_def invMass_def)

lemma cosmetic_keeps: "keeps a a' \<Longrightarrow> keeps a (cosmetic h a' b)"
  by (simp add: keeps_def cosmetic_def)

lemma collidePair_preserved: "preserved es (collidePair P i j es)"
proof (cases "j = i")
  case True
  then show ?thesis by (simp add: collidePair_def)
next
  case False
  show ?thesis
  proof (cases "detect P (es ! i) (es ! j)")
    case None
    with False show ?thesis by (simp add: collidePair_def)
  next
    case (Some nd)
    obtain n d where nd: "nd = (n, d)" by (cases nd)
    obtain a b where r: "resolve (combine P) n d (es ! i) (es ! j) = (a, b)"
      by (cases "resolve (combine P) n d (es ! i) (es ! j)")
    have ka: "keeps (es ! i) (cosmetic (hook P) a b)"
      using resolve_keeps(1) [of "es ! i" "combine P" n d "es ! j"] r
      by (simp add: cosmetic_keeps)
    have kb: "keeps (es ! j) (cosmetic (hook P) b a)"
      using resolve_keeps(2) [of "es ! j" "combine P" n d "es ! i"] r
      by (simp add: cosmetic_keeps)
    have eq: "collidePair P i j es = es[i := cosmetic (hook P) a b, j := cosmetic (hook P) b a]"
      using False Some nd r by (simp add: collidePair_def)
    show ?thesis
      unfolding eq preserved_def
    proof (intro conjI allI impI)
      show "length es \<le> length (es[i := cosmetic (hook P) a b, j := cosmetic (hook P) b a])"
        by simp
    next
      fix k
      assume "k < length es"
      then show "keeps (es ! k) (es[i := cosmetic (hook P) a b, j := cosmetic (hook P) b a] ! k)"
        using ka kb by (cases "k = j"; cases "k = i") simp_all
    qed
  qed
qed

lemma fold_collidePair_preserved: "preserved es (fold (collidePair P i) js es)"
proof (induction js arbitrary: es)
  case Nil
  show ?case by simp
next
  case (Cons j js)
  have "preserved es (collidePair P i j es)" by (rule collidePair_preserved)
  moreover have "preserved (collidePair P i j es) (fold (collidePair P i) js (collidePair P i j es))"
    by (rule Cons.IH)
  ultimately show ?case by (auto intro: preserved_trans)
qed

lemma CheckCollisions_preserved: "preserved es (CheckCollisions P i es)"
  unfolding CheckCollisions_def by (rule fold_collidePair_preserved)

lemma checkLoop_preserved:
  "(\<And>i es. preserved es (K i es)) \<Longrightarrow> preserved es (checkLoop K n i es)"
proof (induction K n i es rule: checkLoop.induct)
  case (1 K n i es)
  show ?case
  proof (cases "i < n")
    case True
    have "preserved es (K i es)" by (rule "1.prems")
    moreover have "preserved (K i es) (checkLoop K n (Suc i) (K i es))"
      using "1.IH" [OF True] "1.prems" by simp
    moreover have "checkLoop K n i es = checkLoop K n (Suc i) (K i es)"
      using True by (subst checkLoop.simps) simp
    ultimately show ?thesis by (auto intro: preserved_trans)
  next
    case False
    then show ?thesis by (subst checkLoop.simps) simp
  qed
qed

lemma applyInput_keeps: "keeps e (applyInput C m rot e)"
  by (simp add: keeps_def applyInput_def Let_def)

lemma processInput_preserved: "preserved (entities st) (entities (processInput C attrs inp st))"
  unfolding preserved_def processInput_entities
  by (simp add: nth_append applyInput_keeps)

lemma map_preserved: "(\<And>e. keeps e (U e)) \<Longrightarrow> preserved es (map U es)"
  by (simp add: preserved_def)

lemma tick_preserved:
  assumes U: "\<And>e. keeps e (U e)" and K: "\<And>i es. preserved es (K i es)"
  shows "preserved (entities st) (entities (tick C U K attrs inp st))"
proof -
  let ?es1 = "entities (processInput C attrs inp st)"
  have "preserved (entities st) ?es1" by (rule processInput_preserved)
  moreover have "preserved ?es1 (map U ?es1)" by (rule map_preserved) (rule U)
  moreover have "preserved (map U ?es1) (checkLoop K (length (map U ?es1)) 0 (map U ?es1))"
    by (rule checkLoop_preserved) (rule K)
  moreover have "entities (tick C U K attrs inp st) =
      checkLoop K (length (map U ?es1)) 0 (map U ?es1)"
    by (simp add: tick_def Let_def forEachFrom_map)
  ultimately show ?thesis by (auto intro: preserved_trans)
qed

lemma runTicks_preserved:
  assumes U: "\<And>e. keeps e (U e)" and K: "\<And>i es. preserved es (K i es)"
  shows "preserved (entities st) (entities (runTicks C U K feed k n st))"
proof (induction n arbitrary: k st)
  case 0
  show ?case by simp
next
  case (Suc n)
  let ?st = "tick C U K (fst (feed k)) (snd (feed k)) st"
  have "preserved (entities st) (entities ?st)" by (rule tick_preserved [OF U K])
  moreover have "preserved (entities ?st) (entities (runTicks C U K feed (Suc k) n ?st))"
    by (rule Suc.IH)
  ultimately show ?case by (auto intro: preserved_trans)
qed


lemma stepping_preserved:
  assumes U: "\<And>e. keeps e (U e)" and K: "\<And>i es. preserved es (K i es)"
  shows "preserved (entities (world L)) (entities (world (stepping C U K feed L)))"
  by (simp add: stepping_runTicks [OF refl] runTicks_preserved [OF U K])

lemma mainLoop_preserved:
  assumes U: "\<And>e. keeps e (U e)" and K: "\<And>i es. preserved es (K i es)"
  shows "preserved (entities (world L)) (entities (world (mainLoop C U K feed nows L)))"
proof (induction nows arbitrary: L)
  case Nil
  show ?case by simp
next
  case (Cons nowTime nows)
  have "preserved (entities (world L)) (entities (world (frame C U K feed nowTime L)))"
    using stepping_preserved [OF U K, where L = "L\<lparr>deltaTime := deltaTime L + (nowTime - lastTime L) * TICKS_PER_SECOND C, lastTime := nowTime\<rparr>" and C = C and feed = feed]
    by (simp add: frame_def Let_def)
  moreover have "preserved (entities (world (frame C U K feed nowTime L)))
      (entities (world (mainLoop C U K feed nows (frame C U K feed nowTime L))))"
    by (rule Cons.IH)
  ultimately show ?case by (auto intro: preserved_trans)
qed

lemma preserved_nth:
  "preserved es es' \<Longrightarrow> i < length es \<Longrightarrow> isKinematic (es ! i) \<Longrightarrow>
     i < length es' \<and> isKinematic (es' ! i) \<and>
     position (es' ! i) = position (es ! i) \<and> velocity (es' ! i) = velocity (es ! i)"
  by (auto simp: preserved_def keeps_def isKinematic_def)

text \<open>
  C2: position and velocity of a kinematic entity are the same after any number of ticks
  (the input step of the program, then the integration and the collision checks of the
  spec) and after any run of the main loop, and the entity stays kinematic and in its
  place in the collection; \<open>Update\<close> changes nothing of a kinematic entity, and the
  resolution of a contact leaves position and velocity of a kinematic participant, on
  either side, as they are.
\<close>

theorem kinematic_entities_never_move:
  "(i < length (entities st) \<and> isKinematic (entities st ! i) \<longrightarrow>
      (let st' = runTicks C (Update clamp) (CheckCollisions P) feed k n st
       in i < length (entities st') \<and> isKinematic (entities st' ! i) \<and>
          position (entities st' ! i) = position (entities st ! i) \<and>
          velocity (entities st' ! i) = velocity (entities st ! i)))
   \<and> (i < length (entities (world L)) \<and> isKinematic (entities (world L) ! i) \<longrightarrow>
      (let L' = mainLoop C (Update clamp) (CheckCollisions P) feed nows L
       in i < length (entities (world L')) \<and> isKinematic (entities (world L') ! i) \<and>
          position (entities (world L') ! i) = position (entities (world L) ! i) \<and>
          velocity (entities (world L') ! i) = velocity (entities (world L) ! i)))
   \<and> (isKinematic e \<longrightarrow> Update clamp e = e)
   \<and> (isKinematic a \<longrightarrow>
        position (fst (resolve c nrm d a b)) = position a \<and>
        velocity (fst (resolve c nrm d a b)) = velocity a)
   \<and> (isKinematic b \<longrightarrow>
        position (snd (resolve c nrm d a b)) = position b \<and>
        velocity (snd (resolve c nrm d a b)) = velocity b)"
proof (intro conjI impI)
  assume "i < length (entities st) \<and> isKinematic (entities st ! i)"
  moreover have "preserved (entities st)
      (entities (runTicks C (Update clamp) (CheckCollisions P) feed k n st))"
    by (rule runTicks_preserved) (rule Update_keeps, rule CheckCollisions_preserved)
  ultimately show "let st' = runTicks C (Update clamp) (CheckCollisions P) feed k n st
       in i < length (entities st') \<and> isKinematic (entities st' ! i) \<and>
          position (entities st' ! i) = position (entities st ! i) \<and>
          velocity (entities st' ! i) = velocity (entities st ! i)"
    unfolding Let_def by (intro preserved_nth) simp_all
next
  assume "i < length (entities (world L)) \<and> isKinematic (entities (world L) ! i)"
  moreover have "preserved (entities (world L))
      (entities (world (mainLoop C (Update clamp) (CheckCollisions P) feed nows L)))"
    by (rule mainLoop_preserved) (rule Update_keeps, rule CheckCollisions_preserved)
  ultimately show "let L' = mainLoop C (Update clamp) (CheckCollisions P) feed nows L
       in i < length (entities (world L')) \<and> isKinematic (entities (world L') ! i) \<and>
          position (entities (world L') ! i) = position (entities (world L) ! i) \<and>
          velocity (entities (world L') ! i) = velocity (entities (world L) ! i)"
    unfolding Let_def by (intro preserved_nth) simp_all
next
  assume "isKinematic e"
  then show "Update clamp e = e" by (simp add: Update_def isKinematic_def)
next
  assume "isKinematic a"
  then show "position (fst (resolve c nrm d a b)) = position a"
    and "velocity (fst (resolve c nrm d a b)) = velocity a"
    using resolve_keeps(1) [of a c nrm d b] by (simp_all add: keeps_def isKinematic_def)
next
  assume "isKinematic b"
  then show "position (snd (resolve c nrm d a b)) = position b"
    and "velocity (snd (resolve c nrm d a b)) = velocity b"
    using resolve_keeps(2) [of b c nrm d a] by (simp_all add: keeps_def isKinematic_def)
qed

theorem kinematic_entities_never_move_witness:
  "1 < length (entities scene1) \<and> isKinematic (entities scene1 ! 1) \<and>
   isKinematic post \<and>
   position (entities (runTicks common0 (Update id) (CheckCollisions physics0) feed0 0 5 scene1) ! 1)
     = \<lparr>X = 115, Y = 100\<rparr> \<and>
   velocity (entities (world (mainLoop common0 (Update id) (CheckCollisions physics0) feed0
      [2.05, 2.1] loop0)) ! 1) = \<lparr>X = 0, Y = 0\<rparr> \<and>
   Update id post = post \<and>
   position (fst (resolve min \<lparr>X = 1, Y = 0\<rparr> 5 post ball)) = \<lparr>X = 115, Y = 100\<rparr> \<and>
   position (snd (resolve min \<lparr>X = 1, Y = 0\<rparr> 5 ball post)) = \<lparr>X = 115, Y = 100\<rparr>"
  using kinematic_entities_never_move [where i = 1 and st = scene1 and C = common0
      and clamp = id and P = physics0 and feed = feed0 and k = 0 and n = 5 and L = loop0
      and nows = "[2.05, 2.1]" and e = post and a = post and b = ball and c = min
      and nrm = "\<lparr>X = 1, Y = 0\<rparr>" and d = 5]
    kinematic_entities_never_move [where i = 1 and st = scene1 and L = loop0 and e = post
      and a = ball and b = post and c = min and nrm = "\<lparr>X = 1, Y = 0\<rparr>" and d = 5]
  by (simp add: scene1_def loop0_def post_def ball_def isKinematic_def Let_def
      del: mainLoop.simps)

text \<open>
  One tick computed: with D held the ball is pushed to the right into the kinematic post,
  is moved back out of it by the whole depth and leaves with its velocity reversed and
  damped, and the post is as before.
\<close>

lemma tick_bounce_off_post:
  "entities (tick common0 (Update id) (CheckCollisions physics0) ball (idle\<lparr>KEY_D := True\<rparr>) scene1) =
     [ball\<lparr>position := \<lparr>X = 95, Y = 100\<rparr>, velocity := \<lparr>X = - 4.0375, Y = 0\<rparr>\<rparr>, post]"
  by (simp add: tick_eq processInput_entities spawn_cases movement_def rotation_input_def
      scene1_def idle_def applyInput_def isKinematic_def ball_def post_def common0_def Let_def
      Update_def vadd_def vsub_def vscale_def vlength_horizontal upt_two CheckCollisions_def
      collidePair_def physics0_def circleCircle_def distance_def resolve_def invMass_def
      dot_def cosmetic_def)

end
